theory Spec2Isabelle
  imports Main
begin

section \<open>Errors\<close>

text \<open>
  Every \<^verbatim>\<open>raise\<close> of \<^verbatim>\<open>models.py\<close> becomes a value \<open>Error exn message\<close>: the Python
  exception class that is raised and the message it carries. \<open>IndexError\<close> and
  \<open>AttributeError\<close> are the implicit failures of \<^verbatim>\<open>xs[0]\<close>, \<^verbatim>\<open>xs[-1]\<close> and of reading
  an attribute that an object does not have.
\<close>

datatype exn =
    ImportError | ValueError | TypeError | RuntimeError
  | AssertionError | AttributeError | IndexError | KeyError

datatype message =
    Msg_requires_h5py
  | Msg_no_model_found
  | Msg_expects_dictionary
  | Msg_must_be_layer_instance
  | Msg_cannot_add_empty_model
  | Msg_first_layer_needs_input_shape
  | Msg_single_output_tensor
  | Msg_no_layers_in_model
  | Msg_cannot_be_built_empty
  | Msg_needs_to_be_compiled
  | Msg_unrecognized_keyword_arguments
  | Msg_expected_model_instance
  | Msg_expected_functional_model
  | Msg_expected_sequential_model
  | Msg_at_most_one_input_tensor
  | Msg_tensor_not_from_input_layer
  | Msg_could_not_compute_output
  | Msg_index_out_of_range
  | Msg_no_such_attribute
  | Msg_no_such_key
  | Msg_from_collaborator

datatype error = Error exn message

text \<open>
  The error kinds are the taxonomy of the specification (its section 7); \<open>kind_of\<close>
  records which kind the specification gives to each message of the source. A message
  the specification does not classify has no kind.
\<close>

datatype kind =
    TypeKind | ConfigKind | ShapeKind | CardinalityKind | UnsupportedKind
  | PreconditionKind | DependencyKind | ValidationKind | SerializationKind
  | AssertionKind | EmptyKind

fun kind_of :: "message \<Rightarrow> kind option" where
  "kind_of Msg_requires_h5py = Some DependencyKind"
| "kind_of Msg_no_model_found = Some ValidationKind"
| "kind_of Msg_must_be_layer_instance = Some TypeKind"
| "kind_of Msg_cannot_add_empty_model = Some ConfigKind"
| "kind_of Msg_single_output_tensor = Some ShapeKind"
| "kind_of Msg_no_layers_in_model = Some EmptyKind"
| "kind_of Msg_cannot_be_built_empty = Some ConfigKind"
| "kind_of Msg_needs_to_be_compiled = Some PreconditionKind"
| "kind_of Msg_expected_functional_model = Some TypeKind"
| "kind_of Msg_at_most_one_input_tensor = Some CardinalityKind"
| "kind_of Msg_tensor_not_from_input_layer = Some UnsupportedKind"
| "kind_of Msg_could_not_compute_output = Some AssertionKind"
| "kind_of _ = None"

fun error_kind :: "error \<Rightarrow> kind option" where
  "error_kind (Error x m) = kind_of m"

section \<open>Tensors, nodes and layers\<close>

text \<open>
  A tensor is an opaque handle; its shape, name and originating layer are looked up
  through the collaborators below. A Python value that is either one object or a list
  of objects (what a layer call returns, what \<^verbatim>\<open>input_tensors\<close> may be) is a \<open>pyarg\<close>;
  \<open>to_list\<close> is \<^verbatim>\<open>topology.to_list\<close>.
\<close>

type_synonym tensor = nat
type_synonym mask = "tensor option"
type_synonym shape = "nat option list"
type_synonym config = "(string \<times> string) list"
type_synonym custom_objects = "(string \<times> string) list"

datatype 'a pyarg = One 'a | Many "'a list"

fun to_list :: "'a pyarg \<Rightarrow> 'a list" where
  "to_list (One x) = [x]"
| "to_list (Many xs) = xs"

datatype kwval = KV string | KMask "mask pyarg"
type_synonym kwargs = "(string \<times> kwval) list"

record node =
  input_tensors :: "tensor list"
  output_tensors :: "tensor list"
  output_shapes :: "shape list"
  arguments :: "kwargs option"

text \<open>
  \<open>base\<close> is the answer to the \<^verbatim>\<open>isinstance\<close> tests of the source: whether the object is
  a layer at all, an \<^verbatim>\<open>InputLayer\<close>, a functional \<^verbatim>\<open>Model\<close> or a \<^verbatim>\<open>Sequential\<close>.
\<close>

datatype base = NotLayer | PlainLayer | InputLayerB | ModelB | SequentialB

record layer_attrs =
  lid :: nat
  base :: base
  class_name :: string
  lname :: string
  layer_config :: config
  batch_input_shape :: "shape option"
  dtype :: string
  sparse :: bool
  inbound_nodes :: "node list"
  outbound_nodes :: "node list"

datatype layer = Layer (attrs: layer_attrs) (sublayers: "layer list")

definition is_layer :: "layer \<Rightarrow> bool" where
  "is_layer l \<longleftrightarrow> base (attrs l) \<noteq> NotLayer"

definition is_input_layer :: "layer \<Rightarrow> bool" where
  "is_input_layer l \<longleftrightarrow> base (attrs l) = InputLayerB"

definition is_model :: "layer \<Rightarrow> bool" where
  "is_model l \<longleftrightarrow> base (attrs l) = ModelB \<or> base (attrs l) = SequentialB"

section \<open>Collaborators\<close>

text \<open>
  \<^verbatim>\<open>models.py\<close> calls into the layer classes, the graph engine (\<^verbatim>\<open>topology\<close>) and the
  backend (\<^verbatim>\<open>K\<close>), none of which is part of this file. They are parameters of the
  model, collected in one record:
  \<^item> \<open>call_value l x kw\<close>: the value of \<^verbatim>\<open>l(x, **kw)\<close>, a tensor or a list of tensors;
  \<^item> \<open>compute_mask l x m\<close>: the value of \<^verbatim>\<open>l.compute_mask(x, m)\<close>;
  \<^item> \<open>has_mask_arg l\<close>: \<^verbatim>\<open>has_arg(l.call, 'mask')\<close>;
  \<^item> \<open>int_shape\<close>: \<^verbatim>\<open>K.int_shape\<close>; \<open>tensor_name\<close>: \<^verbatim>\<open>x.name\<close>;
  \<^item> \<open>Input_placeholder bs dt sp n\<close>: the tensor returned by
    \<^verbatim>\<open>Input(batch_shape=bs, dtype=dt, sparse=sp, name=n)\<close> and the layer in its
    \<^verbatim>\<open>_keras_history[0]\<close>;
  \<^item> \<open>Input_wrapper x n\<close>: the same for \<^verbatim>\<open>Input(tensor=x, name=n)\<close>;
  \<^item> \<open>get_source_inputs\<close>: \<^verbatim>\<open>topology.get_source_inputs\<close>;
  \<^item> \<open>layer_output l\<close>: the property \<^verbatim>\<open>l.output\<close>, which may raise;
  \<^item> \<open>is_keras_tensor\<close>: \<^verbatim>\<open>K.is_keras_tensor\<close>; \<open>keras_history x\<close>: \<^verbatim>\<open>x._keras_history[0]\<close>,
    \<open>None\<close> when the tensor has no such attribute;
  \<^item> \<open>layer_from_config c cfg\<close>: the layer built by the class method \<^verbatim>\<open>from_config\<close> of
    the class named \<open>c\<close>, as in \<^verbatim>\<open>layer.__class__.from_config(layer.get_config())\<close>;
  \<^item> \<open>deserialize\<close>: \<^verbatim>\<open>layer_module.deserialize\<close>, which may raise;
  \<^item> \<open>get_uid\<close>: the default name \<^verbatim>\<open>'sequential_' + str(K.get_uid('sequential_'))\<close>.
\<close>

record collab =
  call_value :: "layer \<Rightarrow> tensor pyarg \<Rightarrow> kwargs \<Rightarrow> tensor pyarg"
  compute_mask :: "layer \<Rightarrow> tensor pyarg \<Rightarrow> mask pyarg \<Rightarrow> mask pyarg"
  has_mask_arg :: "layer \<Rightarrow> bool"
  int_shape :: "tensor \<Rightarrow> shape"
  tensor_name :: "tensor \<Rightarrow> string"
  Input_placeholder :: "shape \<Rightarrow> string \<Rightarrow> bool \<Rightarrow> string \<Rightarrow> tensor \<times> layer"
  Input_wrapper :: "tensor \<Rightarrow> string \<Rightarrow> tensor \<times> layer"
  get_source_inputs :: "tensor \<Rightarrow> tensor list"
  layer_output :: "layer \<Rightarrow> error + tensor"
  is_keras_tensor :: "tensor \<Rightarrow> bool"
  keras_history :: "tensor \<Rightarrow> layer option"
  layer_from_config :: "string \<Rightarrow> config \<Rightarrow> layer"
  deserialize :: "string \<times> config \<Rightarrow> custom_objects \<Rightarrow> error + layer"
  get_uid :: string

text \<open>
  Modelled from the spec: \<^verbatim>\<open>Layer.__call__\<close> and the constructor \<^verbatim>\<open>topology.Node\<close>, which
  are not part of \<^verbatim>\<open>models.py\<close>. A node is the record of one invocation of a layer, with
  its list of input tensors and its list of output tensors. Calling a layer,
  \<^verbatim>\<open>layer(x)\<close>, returns a value and records the call as a new node at the end of the
  layer's \<^verbatim>\<open>_inbound_nodes\<close>, whose output tensors are the returned tensors (line 502 of
  the source reads that node back right after the call). The constructor
  \<^verbatim>\<open>topology.Node(outbound_layer=self, ...)\<close> likewise appends the node it builds to
  \<^verbatim>\<open>self._inbound_nodes\<close> (line 529 reads it back). The identity, class and config of a
  layer do not change when it is called.
\<close>

definition make_node :: "collab \<Rightarrow> tensor list \<Rightarrow> tensor list \<Rightarrow> node" where
  "make_node env ins outs =
     \<lparr>input_tensors = ins, output_tensors = outs,
      output_shapes = map (int_shape env) outs, arguments = None\<rparr>"

definition call_layer :: "collab \<Rightarrow> layer \<Rightarrow> tensor \<Rightarrow> tensor pyarg \<times> layer" where
  "call_layer env l x =
     (let r = call_value env l (One x) [] in
      (r, Layer ((attrs l)\<lparr>inbound_nodes :=
                   inbound_nodes (attrs l) @ [make_node env [x] (to_list r)]\<rparr>)
                (sublayers l)))"

section \<open>The Sequential container\<close>

text \<open>
  \<open>inner_model\<close> is the \<^verbatim>\<open>Model\<close> object that \<^verbatim>\<open>build\<close> creates: its identity, the
  arguments of the constructor, the two attributes \<^verbatim>\<open>build\<close> sets on it and what
  \<^verbatim>\<open>compile\<close> left on it. In the container, \<open>mirror\<close> is the identity of the model whose
  derived attributes (lines 589 to 602) the container holds, and \<open>compiled_as\<close> the
  attributes copied by \<^verbatim>\<open>compile\<close> (lines 767 to 777).
\<close>

type_synonym compiled = "string \<times> string"

record inner_model =
  mid :: nat
  m_inputs :: "tensor list"
  m_output :: tensor
  m_name :: string
  m_trainable :: bool
  callback_model :: "string option"
  m_compiled :: "compiled option"

record sequential =
  layers :: "layer list"
  model :: "inner_model option"
  inputs :: "tensor list"
  outputs :: "tensor list"
  trainable :: bool
  seq_inbound_nodes :: "node list"
  seq_outbound_nodes :: "node list"
  built :: bool
  name :: string
  mirror :: "nat option"
  compiled_as :: "compiled option"

text \<open>\<^verbatim>\<open>Sequential.__init__\<close> before its loop over \<^verbatim>\<open>layers\<close> (lines 409 to 441).\<close>

definition init :: "collab \<Rightarrow> string option \<Rightarrow> sequential" where
  "init env nm =
     \<lparr>layers = [], model = None, inputs = [], outputs = [], trainable = True,
      seq_inbound_nodes = [], seq_outbound_nodes = [], built = False,
      name = (case nm of None \<Rightarrow> get_uid env | Some n \<Rightarrow> (if n = [] then get_uid env else n)),
      mirror = None, compiled_as = None\<rparr>"

text \<open>
  The loop of lines 480 to 482, started on \<^verbatim>\<open>layer.layers[0]\<close>: while the current first
  layer is a model, step to its own first layer. \<^verbatim>\<open>first_layer.layers[0]\<close> on a model
  without layers is Python's \<open>IndexError\<close>.
\<close>

fun first_layer_loop :: "layer \<Rightarrow> error + layer" where
  "first_layer_loop (Layer a ls) =
     (if base a = ModelB \<or> base a = SequentialB then
        (case ls of
           [] \<Rightarrow> Inl (Error IndexError Msg_index_out_of_range)
         | f # _ \<Rightarrow> first_layer_loop f)
      else Inr (Layer a ls))"

text \<open>
  Lines 471 to 493 of \<^verbatim>\<open>add\<close>: the batch shape and dtype of the input layer that is
  created for a first layer that is not an \<^verbatim>\<open>InputLayer\<close>.
\<close>

definition infer_input :: "layer \<Rightarrow> error + (shape \<times> string)" where
  "infer_input layer =
     (if is_model layer then
        (case sublayers layer of
           [] \<Rightarrow> Inl (Error ValueError Msg_cannot_add_empty_model)
         | l0 # _ \<Rightarrow>
            (case first_layer_loop l0 of
               Inl e \<Rightarrow> Inl e
             | Inr first_layer \<Rightarrow>
                (case batch_input_shape (attrs first_layer) of
                   None \<Rightarrow> Inl (Error AttributeError Msg_no_such_attribute)
                 | Some batch_shape \<Rightarrow> Inr (batch_shape, dtype (attrs first_layer)))))
      else
        (case batch_input_shape (attrs layer) of
           None \<Rightarrow> Inl (Error ValueError Msg_first_layer_needs_input_shape)
         | Some batch_shape \<Rightarrow> Inr (batch_shape, dtype (attrs layer))))"

text \<open>
  \<^verbatim>\<open>Sequential.add\<close> (lines 448 to 533). On an error the model returns the error only:
  what the container looks like after a failed call is not described.
\<close>

definition add :: "collab \<Rightarrow> sequential \<Rightarrow> layer \<Rightarrow> error + sequential" where
  "add env self layer =
     (if \<not> is_layer layer then Inl (Error TypeError Msg_must_be_layer_instance)
      else if outputs self = [] then
        (case (if \<not> is_input_layer layer then
                 (case infer_input layer of
                    Inl e \<Rightarrow> Inl e
                  | Inr (batch_shape, dt) \<Rightarrow>
                      (let x = fst (Input_placeholder env batch_shape dt False
                                      (lname (attrs layer) @ ''_input''))
                       in Inr (snd (call_layer env layer x))))
               else Inr layer) of
           Inl e \<Rightarrow> Inl e
         | Inr layer' \<Rightarrow>
            (if inbound_nodes (attrs layer') = []
             then Inl (Error IndexError Msg_index_out_of_range)
             else if length (output_tensors (last (inbound_nodes (attrs layer')))) \<noteq> 1
             then Inl (Error ValueError Msg_single_output_tensor)
             else
               (let outs = [hd (output_tensors (last (inbound_nodes (attrs layer'))))];
                    ins = get_source_inputs env (hd outs)
                in Inr (self\<lparr>outputs := outs, inputs := ins,
                          seq_inbound_nodes :=
                            seq_inbound_nodes self @ [make_node env ins outs],
                          layers := layers self @ [layer'],
                          built := False\<rparr>))))
      else
        (case call_layer env layer (hd (outputs self)) of
           (Many ts, layer') \<Rightarrow> Inl (Error TypeError Msg_single_output_tensor)
         | (One output_tensor, layer') \<Rightarrow>
            (case seq_inbound_nodes self of
               [] \<Rightarrow> Inl (Error IndexError Msg_index_out_of_range)
             | n0 # ns \<Rightarrow>
                Inr (self\<lparr>outputs := [output_tensor],
                       seq_inbound_nodes :=
                         n0\<lparr>output_tensors := [output_tensor],
                            output_shapes := [int_shape env output_tensor]\<rparr> # ns,
                       layers := layers self @ [layer'],
                       built := False\<rparr>))))"

text \<open>
  \<^verbatim>\<open>Sequential.pop\<close> (lines 535 to 555). \<^verbatim>\<open>self.layers[-1]._outbound_nodes = []\<close> is
  \<open>clear_outbound\<close> on the new last layer; the property \<^verbatim>\<open>output\<close> is read after it.
\<close>

definition clear_outbound :: "layer \<Rightarrow> layer" where
  "clear_outbound l = Layer ((attrs l)\<lparr>outbound_nodes := []\<rparr>) (sublayers l)"

definition pop :: "collab \<Rightarrow> sequential \<Rightarrow> error + sequential" where
  "pop env self =
     (if layers self = [] then Inl (Error TypeError Msg_no_layers_in_model)
      else
        (let ls = butlast (layers self) in
         if ls = [] then
           Inr (self\<lparr>layers := [], outputs := [], seq_inbound_nodes := [],
                  seq_outbound_nodes := [], built := False\<rparr>)
         else
           (let ls' = butlast ls @ [clear_outbound (last ls)] in
            case layer_output env (last ls') of
              Inl e \<Rightarrow> Inl e
            | Inr t \<Rightarrow>
               (case seq_inbound_nodes self of
                  [] \<Rightarrow> Inl (Error IndexError Msg_index_out_of_range)
                | n0 # ns \<Rightarrow>
                   Inr (self\<lparr>layers := ls', outputs := [t],
                          seq_inbound_nodes :=
                            n0\<lparr>output_tensors := [t],
                               output_shapes := [int_shape env t]\<rparr> # ns,
                          built := False\<rparr>)))))"

text \<open>
  \<^verbatim>\<open>Sequential.build\<close> (lines 580 to 608). \<open>fresh\<close> is the identity that the runtime gives
  to the object created by \<^verbatim>\<open>Model(self.inputs, self.outputs[0], name=...)\<close>.
\<close>

definition build :: "nat \<Rightarrow> sequential \<Rightarrow> error + sequential" where
  "build fresh self =
     (if inputs self = [] \<or> outputs self = []
      then Inl (Error TypeError Msg_cannot_be_built_empty)
      else
        (let m = \<lparr>mid = fresh, m_inputs = inputs self, m_output = hd (outputs self),
                  m_name = name self @ ''_model'', m_trainable = trainable self,
                  callback_model = Some (name self), m_compiled = None\<rparr>
         in Inr (self\<lparr>model := Some m, mirror := Some fresh, built := True\<rparr>)))"

text \<open>
  \<^verbatim>\<open>Sequential.__init__\<close> with its loop \<^verbatim>\<open>for layer in layers: self.add(layer)\<close>
  (lines 444 to 446).
\<close>

fun add_all :: "collab \<Rightarrow> sequential \<Rightarrow> layer list \<Rightarrow> error + sequential" where
  "add_all env self [] = Inr self"
| "add_all env self (layer # rest) =
     (case add env self layer of
        Inl e \<Rightarrow> Inl e
      | Inr self' \<Rightarrow> add_all env self' rest)"

definition Sequential :: "collab \<Rightarrow> layer list \<Rightarrow> string option \<Rightarrow> error + sequential" where
  "Sequential env ls nm = add_all env (init env nm) ls"




subsection \<open>Delegation to the inner model\<close>

text \<open>
  The training and inference methods of \<^verbatim>\<open>Sequential\<close> end in a call of the same
  method of \<^verbatim>\<open>self.model\<close>, a \<^verbatim>\<open>Model\<close> of the training engine. What that call does is a
  parameter: \<open>model_call\<close> for the methods, \<open>model_compile\<close> for \<^verbatim>\<open>Model.compile\<close>.
  \<^verbatim>\<open>self.model.f(...)\<close> with \<^verbatim>\<open>self.model\<close> still \<^verbatim>\<open>None\<close> is an \<open>AttributeError\<close>.
\<close>

datatype entry_point =
    Fit | Evaluate | Predict | Predict_on_batch | Train_on_batch | Test_on_batch
  | Fit_generator | Evaluate_generator | Predict_generator
  | Get_layer | Call | Get_weights | Set_weights

datatype warning =
    Warn_max_q_size_renamed
  | Warn_pickle_safe_renamed
  | Warn_no_training_configuration
  | Warn_optimizer_state_not_loaded

record gen_args =
  generator :: string
  max_queue_size :: string
  use_multiprocessing :: string
  other_args :: string
  legacy_kwargs :: "(string \<times> string) list"

datatype call_args = Args string | Gen_args gen_args

record trainer =
  model_call :: "entry_point \<Rightarrow> inner_model \<Rightarrow> call_args \<Rightarrow> error + string"
  model_compile :: "inner_model \<Rightarrow> string \<Rightarrow> error + compiled"

definition delegate ::
  "trainer \<Rightarrow> entry_point \<Rightarrow> sequential \<Rightarrow> call_args \<Rightarrow> error + string"
where
  "delegate tr meth self a =
     (case model self of
        None \<Rightarrow> Inl (Error AttributeError Msg_no_such_attribute)
      | Some m \<Rightarrow> model_call tr meth m a)"

text \<open>\<^verbatim>\<open>Sequential.compile\<close> (lines 756 to 777): it calls \<^verbatim>\<open>self.build()\<close> without a test.\<close>

definition compile :: "trainer \<Rightarrow> nat \<Rightarrow> sequential \<Rightarrow> string \<Rightarrow> error + sequential" where
  "compile tr fresh self a =
     (case build fresh self of
        Inl e \<Rightarrow> Inl e
      | Inr s \<Rightarrow>
         (case model s of
            None \<Rightarrow> Inl (Error AttributeError Msg_no_such_attribute)
          | Some m \<Rightarrow>
             (case model_compile tr m a of
                Inl e \<Rightarrow> Inl e
              | Inr c \<Rightarrow>
                 Inr (s\<lparr>model := Some (m\<lparr>m_compiled := Some c\<rparr>),
                        compiled_as := Some c\<rparr>))))"

text \<open>
  The four methods that test \<^verbatim>\<open>self.built\<close> and raise (lines 883, 921, 981, 1004).
\<close>

definition fit :: "trainer \<Rightarrow> sequential \<Rightarrow> string \<Rightarrow> error + string" where
  "fit tr self a =
     (if \<not> built self then Inl (Error RuntimeError Msg_needs_to_be_compiled)
      else delegate tr Fit self (Args a))"

definition evaluate :: "trainer \<Rightarrow> sequential \<Rightarrow> string \<Rightarrow> error + string" where
  "evaluate tr self a =
     (if \<not> built self then Inl (Error RuntimeError Msg_needs_to_be_compiled)
      else delegate tr Evaluate self (Args a))"

definition train_on_batch :: "trainer \<Rightarrow> sequential \<Rightarrow> string \<Rightarrow> error + string" where
  "train_on_batch tr self a =
     (if \<not> built self then Inl (Error RuntimeError Msg_needs_to_be_compiled)
      else delegate tr Train_on_batch self (Args a))"

definition test_on_batch :: "trainer \<Rightarrow> sequential \<Rightarrow> string \<Rightarrow> error + string" where
  "test_on_batch tr self a =
     (if \<not> built self then Inl (Error RuntimeError Msg_needs_to_be_compiled)
      else delegate tr Test_on_batch self (Args a))"

text \<open>
  The legacy support at the head of the three generator methods (lines 1150 to 1160):
  \<^verbatim>\<open>max_q_size\<close> and \<^verbatim>\<open>pickle_safe\<close> are taken out of \<^verbatim>\<open>kwargs\<close> with a warning, and any
  keyword left is a \<open>ValueError\<close>.
\<close>

definition legacy_support :: "gen_args \<Rightarrow> error + gen_args \<times> warning list" where
  "legacy_support a =
     (let kw0 = legacy_kwargs a;
          a1 = (case map_of kw0 ''max_q_size'' of
                  Some v \<Rightarrow> a\<lparr>max_queue_size := v\<rparr> | None \<Rightarrow> a);
          w1 = (case map_of kw0 ''max_q_size'' of
                  Some v \<Rightarrow> [Warn_max_q_size_renamed] | None \<Rightarrow> []);
          kw1 = filter (\<lambda>p. fst p \<noteq> ''max_q_size'') kw0;
          a2 = (case map_of kw1 ''pickle_safe'' of
                  Some v \<Rightarrow> a1\<lparr>use_multiprocessing := v\<rparr> | None \<Rightarrow> a1);
          w2 = (case map_of kw1 ''pickle_safe'' of
                  Some v \<Rightarrow> [Warn_pickle_safe_renamed] | None \<Rightarrow> []);
          kw2 = filter (\<lambda>p. fst p \<noteq> ''pickle_safe'') kw1
      in if kw2 \<noteq> [] then Inl (Error ValueError Msg_unrecognized_keyword_arguments)
         else Inr (a2\<lparr>legacy_kwargs := []\<rparr>, w1 @ w2))"



text \<open>
  The methods that build on demand, \<^verbatim>\<open>if not self.built: self.build()\<close>, and then
  delegate (lines 571, 576, 659, 671, 943, 957, 1289). They return the container too,
  since the call may have built it.
\<close>

definition build_if_needed :: "nat \<Rightarrow> sequential \<Rightarrow> error + sequential" where
  "build_if_needed fresh self = (if \<not> built self then build fresh self else Inr self)"

definition delegate_built ::
  "trainer \<Rightarrow> entry_point \<Rightarrow> nat \<Rightarrow> sequential \<Rightarrow> call_args \<Rightarrow> error + string \<times> sequential"
where
  "delegate_built tr meth fresh self a =
     (case build_if_needed fresh self of
        Inl e \<Rightarrow> Inl e
      | Inr s \<Rightarrow>
         (case delegate tr meth s a of
            Inl e \<Rightarrow> Inl e
          | Inr r \<Rightarrow> Inr (r, s)))"

definition predict ::
  "trainer \<Rightarrow> nat \<Rightarrow> sequential \<Rightarrow> string \<Rightarrow> error + string \<times> sequential"
where
  "predict tr fresh self a = delegate_built tr Predict fresh self (Args a)"

definition predict_on_batch ::
  "trainer \<Rightarrow> nat \<Rightarrow> sequential \<Rightarrow> string \<Rightarrow> error + string \<times> sequential"
where
  "predict_on_batch tr fresh self a = delegate_built tr Predict_on_batch fresh self (Args a)"

definition get_layer ::
  "trainer \<Rightarrow> nat \<Rightarrow> sequential \<Rightarrow> string \<Rightarrow> error + string \<times> sequential"
where
  "get_layer tr fresh self a = delegate_built tr Get_layer fresh self (Args a)"

definition call ::
  "trainer \<Rightarrow> nat \<Rightarrow> sequential \<Rightarrow> string \<Rightarrow> error + string \<times> sequential"
where
  "call tr fresh self a = delegate_built tr Call fresh self (Args a)"

definition get_weights ::
  "trainer \<Rightarrow> nat \<Rightarrow> sequential \<Rightarrow> error + string \<times> sequential"
where
  "get_weights tr fresh self = delegate_built tr Get_weights fresh self (Args [])"

definition set_weights ::
  "trainer \<Rightarrow> nat \<Rightarrow> sequential \<Rightarrow> string \<Rightarrow> error + string \<times> sequential"
where
  "set_weights tr fresh self a = delegate_built tr Set_weights fresh self (Args a)"

definition predict_generator ::
  "trainer \<Rightarrow> nat \<Rightarrow> sequential \<Rightarrow> gen_args \<Rightarrow> error + (string \<times> sequential) \<times> warning list"
where
  "predict_generator tr fresh self a =
     (case legacy_support a of
        Inl e \<Rightarrow> Inl e
      | Inr (a', ws) \<Rightarrow>
         (case delegate_built tr Predict_generator fresh self (Gen_args a') of
            Inl e \<Rightarrow> Inl e
          | Inr r \<Rightarrow> Inr (r, ws)))"

section \<open>The clone engine\<close>

text \<open>
  A functional \<^verbatim>\<open>Model\<close> as \<^verbatim>\<open>_clone_functional_model\<close> reads it: its name, its input
  and output tensors, its \<^verbatim>\<open>_input_layers\<close> and the dictionary \<^verbatim>\<open>_nodes_by_depth\<close>, an
  association list from depth to the nodes of that depth. A node of that dictionary
  carries its \<^verbatim>\<open>outbound_layer\<close>. \<open>any_model\<close> is the argument of \<^verbatim>\<open>clone_model\<close>, told
  apart by \<^verbatim>\<open>isinstance\<close>.
\<close>

record mnode = node +
  outbound_layer :: layer

record fmodel =
  f_name :: string
  f_inputs :: "tensor list"
  f_outputs :: "tensor list"
  input_layers :: "layer list"
  nodes_by_depth :: "(nat \<times> mnode list) list"

datatype any_model = Seq sequential | Fun fmodel | Not_a_model

record new_model =
  nm_inputs :: "tensor list"
  nm_outputs :: "tensor list"
  nm_name :: string

record clone_state =
  layer_map :: "nat \<rightharpoonup> layer"
  tensor_map :: "tensor \<rightharpoonup> tensor \<times> mask"

text \<open>
  Lines 1350 to 1364: with no replacement inputs, one placeholder per input layer of the
  model; the new input layer is cached under the identity of the original one. (The
  second loop, over the list \<^verbatim>\<open>input_layers\<close> that is never filled, does nothing.)
\<close>

fun create_placeholders ::
  "collab \<Rightarrow> layer list \<Rightarrow> tensor list \<Rightarrow> (nat \<rightharpoonup> layer)
   \<Rightarrow> error + tensor list \<times> (nat \<rightharpoonup> layer)"
where
  "create_placeholders env [] acc lm = Inr (acc, lm)"
| "create_placeholders env (layer # rest) acc lm =
     (case batch_input_shape (attrs layer) of
        None \<Rightarrow> Inl (Error AttributeError Msg_no_such_attribute)
      | Some bs \<Rightarrow>
         (let (input_tensor, newly_created_input_layer) =
                Input_placeholder env bs (dtype (attrs layer)) (sparse (attrs layer))
                  (lname (attrs layer))
          in create_placeholders env rest (acc @ [input_tensor])
               (lm(lid (attrs layer) \<mapsto> newly_created_input_layer))))"

text \<open>
  Lines 1368 to 1381: with replacement inputs, a tensor that is not a Keras tensor is
  wrapped in an input layer. \<open>i\<close> is the index of \<^verbatim>\<open>enumerate\<close>;
  \<^verbatim>\<open>model._input_layers[i]\<close> beyond the list is an \<open>IndexError\<close>, and
  \<^verbatim>\<open>x._keras_history\<close> on a tensor without that attribute an \<open>AttributeError\<close>.
\<close>

fun wrap_inputs ::
  "collab \<Rightarrow> layer list \<Rightarrow> nat \<Rightarrow> tensor list \<Rightarrow> tensor list \<Rightarrow> (nat \<rightharpoonup> layer)
   \<Rightarrow> error + tensor list \<times> (nat \<rightharpoonup> layer)"
where
  "wrap_inputs env ils i [] input_tensors' lm = Inr (input_tensors', lm)"
| "wrap_inputs env ils i (x # rest) input_tensors' lm =
     (if \<not> is_keras_tensor env x then
        (if i < length ils then
           (let nm = lname (attrs (ils ! i));
                (input_tensor, newly_created_input_layer) =
                   Input_wrapper env x (''input_wrapper_for_'' @ nm)
            in case keras_history env x of
                 None \<Rightarrow> Inl (Error AttributeError Msg_no_such_attribute)
               | Some original_input_layer \<Rightarrow>
                   wrap_inputs env ils (Suc i) rest (input_tensors' @ [input_tensor])
                     (lm(lid (attrs original_input_layer) \<mapsto> newly_created_input_layer)))
         else Inl (Error IndexError Msg_index_out_of_range))
      else wrap_inputs env ils (Suc i) rest (input_tensors' @ [x]) lm)"

text \<open>
  Lines 1408 to 1447: the call of the cloned layer on the substituted inputs of a node,
  and the update of the tensor map. \<^verbatim>\<open>zip\<close> of three lists stops at the shortest.
\<close>

definition update_tensor_map ::
  "tensor list \<Rightarrow> tensor list \<Rightarrow> mask list \<Rightarrow> (tensor \<rightharpoonup> tensor \<times> mask)
   \<Rightarrow> (tensor \<rightharpoonup> tensor \<times> mask)"
where
  "update_tensor_map reference_output_tensors outs output_masks tm =
     fold (\<lambda>(x, y, m) tm'. tm'(x \<mapsto> (y, m)))
       (zip reference_output_tensors (zip outs output_masks)) tm"

definition call_node :: "collab \<Rightarrow> mnode \<Rightarrow> layer \<Rightarrow> clone_state \<Rightarrow> clone_state" where
  "call_node env node layer st =
     (let reference_input_tensors = input_tensors node;
          reference_output_tensors = output_tensors node;
          computed_data = List.map_filter (tensor_map st) reference_input_tensors
      in if length computed_data = length reference_input_tensors then
           (let kwargs = (case arguments node of None \<Rightarrow> [] | Some a \<Rightarrow> a) in
            if length computed_data = 1 then
              (let (computed_tensor, computed_mask) = hd computed_data;
                   kwargs' =
                     (if has_mask_arg env layer \<and> map_of kwargs ''mask'' = None
                      then kwargs @ [(''mask'', KMask (One computed_mask))] else kwargs);
                   outs = to_list (call_value env layer (One computed_tensor) kwargs');
                   output_masks =
                     to_list (compute_mask env layer (One computed_tensor) (One computed_mask))
               in st\<lparr>tensor_map :=
                       update_tensor_map reference_output_tensors outs output_masks
                         (tensor_map st)\<rparr>)
            else
              (let computed_tensors = map fst computed_data;
                   computed_masks = map snd computed_data;
                   kwargs' =
                     (if has_mask_arg env layer \<and> map_of kwargs ''mask'' = None
                      then kwargs @ [(''mask'', KMask (Many computed_masks))] else kwargs);
                   outs = to_list (call_value env layer (Many computed_tensors) kwargs');
                   output_masks =
                     to_list (compute_mask env layer (Many computed_tensors)
                                (Many computed_masks))
               in st\<lparr>tensor_map :=
                       update_tensor_map reference_output_tensors outs output_masks
                         (tensor_map st)\<rparr>))
         else st)"

text \<open>
  Lines 1392 to 1406: the layer of the node is cloned on its first visit and looked up
  afterwards; a node whose layer is mapped to an \<^verbatim>\<open>InputLayer\<close> is passed over
  (\<^verbatim>\<open>continue\<close>).
\<close>

definition process_node :: "collab \<Rightarrow> mnode \<Rightarrow> clone_state \<Rightarrow> clone_state" where
  "process_node env node st =
     (let layer = outbound_layer node in
      case layer_map st (lid (attrs layer)) of
        None \<Rightarrow>
          (let new_layer =
                 layer_from_config env (class_name (attrs layer)) (layer_config (attrs layer))
           in call_node env node new_layer
                (st\<lparr>layer_map := (layer_map st)(lid (attrs layer) \<mapsto> new_layer)\<rparr>))
      | Some layer' \<Rightarrow>
          (if is_input_layer layer' then st else call_node env node layer' st))"

text \<open>
  Lines 1387 to 1391: the depths in decreasing order, and under each depth its nodes in
  their order.
\<close>

definition depth_keys :: "fmodel \<Rightarrow> nat list" where
  "depth_keys m = rev (sort (map fst (nodes_by_depth m)))"

definition nodes_at :: "fmodel \<Rightarrow> nat \<Rightarrow> mnode list" where
  "nodes_at m depth = (case map_of (nodes_by_depth m) depth of None \<Rightarrow> [] | Some ns \<Rightarrow> ns)"

definition ordered_nodes :: "fmodel \<Rightarrow> mnode list" where
  "ordered_nodes m = concat (map (nodes_at m) (depth_keys m))"

definition traverse :: "collab \<Rightarrow> fmodel \<Rightarrow> clone_state \<Rightarrow> clone_state" where
  "traverse env m st = fold (process_node env) (ordered_nodes m) st"

text \<open>Lines 1451 to 1455: the outputs are looked up; the \<^verbatim>\<open>assert\<close> fails on a missing one.\<close>

fun collect_outputs :: "(tensor \<rightharpoonup> tensor \<times> mask) \<Rightarrow> tensor list \<Rightarrow> error + tensor list" where
  "collect_outputs tm [] = Inr []"
| "collect_outputs tm (x # xs) =
     (case tm x of
        None \<Rightarrow> Inl (Error AssertionError Msg_could_not_compute_output)
      | Some (t, m) \<Rightarrow>
         (case collect_outputs tm xs of
            Inl e \<Rightarrow> Inl e
          | Inr ts \<Rightarrow> Inr (t # ts)))"

text \<open>
  Lines 1346 to 1384: the two maps before the traversal. The tensor map starts with
  \<^verbatim>\<open>zip(model.inputs, input_tensors)\<close>.
\<close>

definition seed ::
  "collab \<Rightarrow> fmodel \<Rightarrow> tensor pyarg option \<Rightarrow> error + tensor list \<times> clone_state"
where
  "seed env m replacement =
     (case (case replacement of
              None \<Rightarrow> create_placeholders env (input_layers m) [] Map.empty
            | Some its \<Rightarrow> wrap_inputs env (input_layers m) 0 (to_list its) [] Map.empty) of
        Inl e \<Rightarrow> Inl e
      | Inr (input_tensors', lm) \<Rightarrow>
          Inr (input_tensors',
               \<lparr>layer_map = lm,
                tensor_map = fold (\<lambda>(x, y) tm. tm(x \<mapsto> (y, None)))
                               (zip (f_inputs m) input_tensors') Map.empty\<rparr>))"

text \<open>\<^verbatim>\<open>_clone_functional_model\<close> (lines 1317 to 1456).\<close>

definition clone_functional_model ::
  "collab \<Rightarrow> any_model \<Rightarrow> tensor pyarg option \<Rightarrow> error + new_model"
where
  "clone_functional_model env model0 replacement =
     (case model0 of
        Not_a_model \<Rightarrow> Inl (Error ValueError Msg_expected_model_instance)
      | Seq s \<Rightarrow> Inl (Error ValueError Msg_expected_functional_model)
      | Fun m \<Rightarrow>
         (case seed env m replacement of
            Inl e \<Rightarrow> Inl e
          | Inr (input_tensors', st) \<Rightarrow>
             (case collect_outputs (tensor_map (traverse env m st)) (f_outputs m) of
                Inl e \<Rightarrow> Inl e
              | Inr outs \<Rightarrow>
                 Inr \<lparr>nm_inputs = input_tensors', nm_outputs = outs,
                      nm_name = f_name m\<rparr>)))"

text \<open>\<^verbatim>\<open>_clone_sequential_model\<close> (lines 1459 to 1508) and \<^verbatim>\<open>clone_model\<close>.\<close>

definition clone :: "collab \<Rightarrow> layer \<Rightarrow> layer" where
  "clone env layer =
     layer_from_config env (class_name (attrs layer)) (layer_config (attrs layer))"

definition clone_sequential_model ::
  "collab \<Rightarrow> any_model \<Rightarrow> tensor pyarg option \<Rightarrow> error + sequential"
where
  "clone_sequential_model env model0 replacement =
     (case model0 of
        Seq m \<Rightarrow>
          (let ls = map (clone env) (layers m) in
           case replacement of
             None \<Rightarrow> Sequential env ls (Some (name m))
           | Some its \<Rightarrow>
              (case to_list its of
                 [x] \<Rightarrow>
                   (if is_keras_tensor env x then
                      (case keras_history env x of
                         None \<Rightarrow> Inl (Error AttributeError Msg_no_such_attribute)
                       | Some origin_layer \<Rightarrow>
                          (if is_input_layer origin_layer
                           then Sequential env (origin_layer # ls) (Some (name m))
                           else Inl (Error ValueError Msg_tensor_not_from_input_layer)))
                    else
                      (let input_layer =
                             snd (Input_wrapper env x
                                    (''input_wrapper_for_'' @ tensor_name env x))
                       in Sequential env (input_layer # ls) (Some (name m))))
               | _ \<Rightarrow> Inl (Error ValueError Msg_at_most_one_input_tensor)))
      | _ \<Rightarrow> Inl (Error ValueError Msg_expected_sequential_model))"

datatype cloned = Cloned_sequential sequential | Cloned_model new_model

definition clone_model :: "collab \<Rightarrow> any_model \<Rightarrow> tensor pyarg option \<Rightarrow> error + cloned" where
  "clone_model env model0 replacement =
     (case model0 of
        Seq m \<Rightarrow> map_sum id Cloned_sequential (clone_sequential_model env model0 replacement)
      | _ \<Rightarrow> map_sum id Cloned_model (clone_functional_model env model0 replacement))"

section \<open>Loading a saved model\<close>

text \<open>
  The archive as \<^verbatim>\<open>load_model\<close> reads it: the attributes \<^verbatim>\<open>model_config\<close> and
  \<^verbatim>\<open>training_config\<close> (already decoded from JSON; \<open>None\<close> when \<^verbatim>\<open>f.attrs.get\<close> finds
  nothing) and the groups \<^verbatim>\<open>model_weights\<close> and \<^verbatim>\<open>optimizer_weights\<close>. A model
  configuration is a dictionary or, for a bare \<^verbatim>\<open>Sequential\<close> configuration, a list.
\<close>

datatype json = JAtom string | JObject string | JList "json list" | JDict "(string \<times> json) list"

datatype model_config =
    Config_dict "string \<times> config"
  | Config_list "(string \<times> config) list"

type_synonym weights = "string list"

record training_config =
  optimizer_config :: "string \<times> config"
  loss :: json
  metrics :: json
  sample_weight_mode :: json
  loss_weights :: json

record archive =
  a_model_config :: "model_config option"
  a_model_weights :: "weights option"
  a_training_config :: "training_config option"
  a_optimizer_weights :: "weights option"

record compile_spec =
  cs_optimizer :: string
  cs_loss :: json
  cs_metrics :: json
  cs_loss_weights :: json
  cs_sample_weight_mode :: json

text \<open>
  The reconstructed model is opaque to \<^verbatim>\<open>load_model\<close>: everything done to it is a call
  of a collaborator, each of which may raise:
  \<^item> \<open>deserialize_model\<close>: \<^verbatim>\<open>layer_module.deserialize\<close>;
  \<^item> \<open>load_weights_from_hdf5_group\<close>: the function of that name in \<^verbatim>\<open>topology\<close>;
  \<^item> \<open>optimizers_deserialize\<close>: \<^verbatim>\<open>optimizers.deserialize\<close>;
  \<^item> \<open>compile_model\<close>: \<^verbatim>\<open>model.compile(...)\<close>;
  \<^item> \<open>make_train_function\<close>: \<^verbatim>\<open>_make_train_function\<close>, on \<^verbatim>\<open>model.model\<close> for a
    \<^verbatim>\<open>Sequential\<close> (the flag) and on the model itself otherwise;
  \<^item> \<open>set_optimizer_weights\<close>: \<^verbatim>\<open>model.optimizer.set_weights\<close>.
\<close>

record 'm codec =
  deserialize_model :: "string \<times> config \<Rightarrow> custom_objects \<Rightarrow> error + 'm"
  load_weights_from_hdf5_group :: "weights \<Rightarrow> 'm \<Rightarrow> error + 'm"
  optimizers_deserialize :: "string \<times> config \<Rightarrow> custom_objects \<Rightarrow> error + string"
  compile_model :: "'m \<Rightarrow> compile_spec \<Rightarrow> error + 'm"
  is_sequential :: "'m \<Rightarrow> bool"
  make_train_function :: "bool \<Rightarrow> 'm \<Rightarrow> error + 'm"
  set_optimizer_weights :: "'m \<Rightarrow> weights \<Rightarrow> error + 'm"

text \<open>The local function \<^verbatim>\<open>convert_custom_objects\<close> of \<^verbatim>\<open>load_model\<close> (lines 218 to 241).\<close>

fun convert_custom_objects :: "custom_objects \<Rightarrow> json \<Rightarrow> json" where
  "convert_custom_objects co (JList vs) = JList (map (convert_custom_objects co) vs)"
| "convert_custom_objects co (JDict kvs) =
     JDict (map (\<lambda>kv. (fst kv, convert_custom_objects co (snd kv))) kvs)"
| "convert_custom_objects co (JAtom a) =
     (case map_of co a of None \<Rightarrow> JAtom a | Some c \<Rightarrow> JObject c)"
| "convert_custom_objects co (JObject c) = JObject c"

text \<open>\<^verbatim>\<open>model_from_config\<close> (lines 309 to 328).\<close>

definition model_from_config ::
  "'m codec \<Rightarrow> model_config \<Rightarrow> custom_objects \<Rightarrow> error + 'm"
where
  "model_from_config cd conf co =
     (case conf of
        Config_list l \<Rightarrow> Inl (Error TypeError Msg_expects_dictionary)
      | Config_dict d \<Rightarrow> deserialize_model cd d co)"

text \<open>
  \<^verbatim>\<open>load_model\<close> (lines 189 to 305). \<open>h5py\<close> tells whether the module \<^verbatim>\<open>h5py\<close> could be
  imported. The result is the model together with the warnings that were logged.
  Only a \<open>ValueError\<close> of \<^verbatim>\<open>set_weights\<close> is caught (line 300).
\<close>

definition load_model ::
  "'m codec \<Rightarrow> bool \<Rightarrow> archive \<Rightarrow> custom_objects \<Rightarrow> bool \<Rightarrow> error + 'm \<times> warning list"
where
  "load_model cd h5py f custom_objects0 compile0 =
     (if \<not> h5py then Inl (Error ImportError Msg_requires_h5py)
      else
        (case a_model_config f of
           None \<Rightarrow> Inl (Error ValueError Msg_no_model_found)
         | Some conf \<Rightarrow>
            (case model_from_config cd conf custom_objects0 of
               Inl e \<Rightarrow> Inl e
             | Inr m0 \<Rightarrow>
                (case a_model_weights f of
                   None \<Rightarrow> Inl (Error KeyError Msg_no_such_key)
                 | Some w \<Rightarrow>
                    (case load_weights_from_hdf5_group cd w m0 of
                       Inl e \<Rightarrow> Inl e
                     | Inr m1 \<Rightarrow>
                        (if \<not> compile0 then Inr (m1, [])
                         else
                           (case a_training_config f of
                              None \<Rightarrow> Inr (m1, [Warn_no_training_configuration])
                            | Some tc \<Rightarrow>
                               (case optimizers_deserialize cd (optimizer_config tc)
                                       custom_objects0 of
                                  Inl e \<Rightarrow> Inl e
                                | Inr optimizer \<Rightarrow>
                                   (case compile_model cd m1
                                           \<lparr>cs_optimizer = optimizer,
                                            cs_loss = convert_custom_objects custom_objects0 (loss tc),
                                            cs_metrics =
                                              convert_custom_objects custom_objects0 (metrics tc),
                                            cs_loss_weights = loss_weights tc,
                                            cs_sample_weight_mode = sample_weight_mode tc\<rparr> of
                                      Inl e \<Rightarrow> Inl e
                                    | Inr m2 \<Rightarrow>
                                       (case a_optimizer_weights f of
                                          None \<Rightarrow> Inr (m2, [])
                                        | Some ow \<Rightarrow>
                                           (case make_train_function cd (is_sequential cd m2) m2 of
                                              Inl e \<Rightarrow> Inl e
                                            | Inr m3 \<Rightarrow>
                                               (case set_optimizer_weights cd m3 ow of
                                                  Inl (Error ValueError msg) \<Rightarrow>
                                                    Inr (m3, [Warn_optimizer_state_not_loaded])
                                                | Inl e \<Rightarrow> Inl e
                                                | Inr m4 \<Rightarrow> Inr (m4, [])))))))))))))"

section \<open>States of a container\<close>


text \<open>
  A container is consistent when its output tensor and the output entries of its node
  are what \<^verbatim>\<open>pop\<close> derives from the last layer: the value of the property \<^verbatim>\<open>output\<close> of
  that layer. An empty container has no output and no node.
\<close>

definition consistent :: "collab \<Rightarrow> sequential \<Rightarrow> bool" where
  "consistent env s \<longleftrightarrow>
     (if layers s = [] then outputs s = [] \<and> seq_inbound_nodes s = []
      else (case (outputs s, seq_inbound_nodes s) of
              ([t], n0 # ns) \<Rightarrow>
                 layer_output env (clear_outbound (last (layers s))) = Inr t
                 \<and> output_tensors n0 = [t] \<and> output_shapes n0 = [int_shape env t]
            | _ \<Rightarrow> False))"



section \<open>Well-formed models and resolved nodes\<close>






text \<open>
  \<open>all_resolved env ns st\<close>: in the traversal of \<open>ns\<close> from the state \<open>st\<close>, every node
  finds all its input tensors in the tensor map when it is visited.
\<close>

fun all_resolved :: "collab \<Rightarrow> mnode list \<Rightarrow> clone_state \<Rightarrow> bool" where
  "all_resolved env [] st = True"
| "all_resolved env (n # ns) st =
     (list_all (\<lambda>x. tensor_map st x \<noteq> None) (input_tensors n)
      \<and> all_resolved env ns (process_node env n st))"




text \<open>The keywords that the generator methods still accept (lines 1150 and 1154).\<close>

definition legacy_keywords :: "string set" where
  "legacy_keywords = {''max_q_size'', ''pickle_safe''}"

section \<open>Example objects\<close>

text \<open>
  Concrete layers, collaborators and models, on which the theorems below are applied.
  \<open>example_env\<close> is a small instance of the collaborators: a layer of class
  \<^verbatim>\<open>Split\<close> returns two tensors when called and every other layer one; no layer
  supports masking, so \<^verbatim>\<open>compute_mask\<close> returns \<^verbatim>\<open>None\<close>; the property \<^verbatim>\<open>output\<close> of a
  layer is the output of its first node.
\<close>

definition example_node :: "tensor list \<Rightarrow> tensor list \<Rightarrow> node" where
  "example_node ins outs =
     \<lparr>input_tensors = ins, output_tensors = outs,
      output_shapes = map (\<lambda>t. [None, Some 2]) outs, arguments = None\<rparr>"

definition example_layer ::
  "nat \<Rightarrow> base \<Rightarrow> string \<Rightarrow> string \<Rightarrow> shape option \<Rightarrow> node list \<Rightarrow> layer list \<Rightarrow> layer"
where
  "example_layer i b c n bs ns subs =
     Layer \<lparr>lid = i, base = b, class_name = c, lname = n,
            layer_config =
              (''name'', n) #
              (case bs of None \<Rightarrow> [] | Some sh \<Rightarrow> [(''batch_input_shape'', ''(None, 3)'')]),
            batch_input_shape = bs,
            dtype = ''float32'', sparse = False,
            inbound_nodes = ns, outbound_nodes = []\<rparr> subs"

definition example_instantiate :: "string \<Rightarrow> config \<Rightarrow> layer" where
  "example_instantiate c cfg =
     example_layer (100 + length (concat (map snd cfg)))
       (if c = ''InputLayer'' then InputLayerB else PlainLayer) c
       (case map_of cfg ''name'' of None \<Rightarrow> [] | Some n \<Rightarrow> n)
       (case map_of cfg ''batch_input_shape'' of
          None \<Rightarrow> None | Some sh \<Rightarrow> Some [None, Some 3])
       (if c = ''InputLayer'' then [example_node [600] [600]] else []) []"

definition dense_1 :: layer where
  "dense_1 = example_layer 1 PlainLayer ''Dense'' ''dense_1'' (Some [None, Some 3]) [] []"

definition dense_2 :: layer where
  "dense_2 = example_layer 2 PlainLayer ''Dense'' ''dense_2'' None [] []"

definition split_3 :: layer where
  "split_3 = example_layer 3 PlainLayer ''Split'' ''split_3'' (Some [None, Some 3]) [] []"

definition input_7 :: layer where
  "input_7 =
     example_layer 7 InputLayerB ''InputLayer'' ''input_7'' (Some [None, Some 3])
       [example_node [7] [7]] []"

definition example_env :: collab where
  "example_env =
     \<lparr>call_value =
        (\<lambda>l x kw. if class_name (attrs l) = ''Split''
                   then Many [1000 + lid (attrs l), 2000 + lid (attrs l)]
                   else One (1000 + lid (attrs l))),
      compute_mask = (\<lambda>l x m. One None),
      has_mask_arg = (\<lambda>l. False),
      int_shape = (\<lambda>t. [None, Some 2]),
      tensor_name = (\<lambda>t. ''tensor''),
      Input_placeholder =
        (\<lambda>bs dt sp n.
           (500, example_layer 900 InputLayerB ''InputLayer'' n (Some bs)
                   [example_node [500] [500]] [])),
      Input_wrapper =
        (\<lambda>x n.
           (x, example_layer 800 InputLayerB ''InputLayer'' n None
                 [example_node [x] [x]] [])),
      get_source_inputs = (\<lambda>t. if t = 7 then [7] else [500]),
      layer_output =
        (\<lambda>l. case inbound_nodes (attrs l) of
                [] \<Rightarrow> Inl (Error AttributeError Msg_no_such_attribute)
              | n # ns \<Rightarrow>
                 (case output_tensors n of
                    [] \<Rightarrow> Inl (Error IndexError Msg_index_out_of_range)
                  | t # ts \<Rightarrow> Inr t)),
      is_keras_tensor = (\<lambda>t. t < 5000),
      keras_history =
        (\<lambda>t. if t = 7 then Some input_7
             else if t = 1001 then Some dense_1
             else if t = 500 then
               Some (example_layer 900 InputLayerB ''InputLayer'' ''dense_1_input''
                       (Some [None, Some 3]) [example_node [500] [500]] [])
             else None),
      layer_from_config = example_instantiate,
      deserialize = (\<lambda>conf co. Inr (example_instantiate (fst conf) (snd conf))),
      get_uid = ''sequential_1''\<rparr>"

definition example_trainer :: trainer where
  "example_trainer =
     \<lparr>model_call = (\<lambda>meth m a. Inr ''done''),
      model_compile = (\<lambda>m a. Inr (a, ''loss''))\<rparr>"

text \<open>A container holding \<open>dense_1\<close>, and the same after \<^verbatim>\<open>build\<close>.\<close>

definition example_seq :: sequential where
  "example_seq = projr (add example_env (init example_env None) dense_1)"




text \<open>A nested model whose inner model has lost its layers.\<close>

definition emptied_inner :: layer where
  "emptied_inner = example_layer 21 SequentialB ''Sequential'' ''sequential_2'' None [] []"

definition outer_model :: layer where
  "outer_model =
     example_layer 20 SequentialB ''Sequential'' ''sequential_3'' None [] [emptied_inner]"

text \<open>A nested model with a first layer two levels down.\<close>

definition nested_model :: layer where
  "nested_model =
     example_layer 22 SequentialB ''Sequential'' ''sequential_4'' None []
       [example_layer 23 SequentialB ''Sequential'' ''sequential_5'' None [] [dense_1, dense_2]]"

text \<open>
  Two functional models: an input layer followed by a \<^verbatim>\<open>Dense\<close> layer, and the same
  followed by a \<^verbatim>\<open>Split\<close> layer whose second output is the output of the model.
\<close>

definition example_mnode :: "tensor list \<Rightarrow> tensor list \<Rightarrow> layer \<Rightarrow> mnode" where
  "example_mnode ins outs l =
     \<lparr>input_tensors = ins, output_tensors = outs,
      output_shapes = map (\<lambda>t. [None, Some 2]) outs, arguments = None,
      outbound_layer = l\<rparr>"

definition input_10 :: layer where
  "input_10 =
     example_layer 10 InputLayerB ''InputLayer'' ''input_10'' (Some [None, Some 3])
       [example_node [1] [1]] []"

definition dense_11 :: layer where
  "dense_11 = example_layer 11 PlainLayer ''Dense'' ''dense_11'' None [] []"

definition split_12 :: layer where
  "split_12 = example_layer 12 PlainLayer ''Split'' ''split_12'' None [] []"

definition example_model :: fmodel where
  "example_model =
     \<lparr>f_name = ''model_1'', f_inputs = [1], f_outputs = [2], input_layers = [input_10],
      nodes_by_depth =
        [(0, [example_mnode [1] [2] dense_11]), (1, [example_mnode [1] [1] input_10])]\<rparr>"

definition split_model :: fmodel where
  "split_model =
     \<lparr>f_name = ''model_2'', f_inputs = [1], f_outputs = [4], input_layers = [input_10],
      nodes_by_depth =
        [(0, [example_mnode [2] [3, 4] split_12]), (1, [example_mnode [1] [2] dense_11]),
         (2, [example_mnode [1] [1] input_10])]\<rparr>"

definition example_codec :: "string codec" where
  "example_codec =
     \<lparr>deserialize_model = (\<lambda>conf co. Inr (fst conf)),
      load_weights_from_hdf5_group = (\<lambda>w m. Inr (m @ ''+weights'')),
      optimizers_deserialize = (\<lambda>conf co. Inr (fst conf)),
      compile_model = (\<lambda>m cs. Inr (m @ ''+compiled'')),
      is_sequential = (\<lambda>m. True),
      make_train_function = (\<lambda>b m. Inr m),
      set_optimizer_weights = (\<lambda>m w. Inr m)\<rparr>"

definition example_archive :: archive where
  "example_archive =
     \<lparr>a_model_config = Some (Config_dict (''Sequential'', [])),
      a_model_weights = Some [],
      a_training_config = None,
      a_optimizer_weights = None\<rparr>"

section \<open>Facts about the example objects\<close>

lemmas layer_tests = is_layer_def is_input_layer_def is_model_def

lemmas example_defs =
  example_env_def example_trainer_def example_layer_def example_node_def
  example_instantiate_def dense_1_def dense_2_def split_3_def input_7_def
  emptied_inner_def outer_model_def nested_model_def
  example_mnode_def input_10_def dense_11_def split_12_def

lemma example_seq_eq:
  "add example_env (init example_env None) dense_1 = Inr example_seq"
  "layers example_seq = [snd (call_layer example_env dense_1 500)]"
  "outputs example_seq = [1001]"
  "inputs example_seq = [500]"
  "built example_seq = False"
  "model example_seq = None"
  "seq_inbound_nodes example_seq = [example_node [500] [1001]]"
  "name example_seq = ''sequential_1''"
  "trainable example_seq"
  "compiled_as example_seq = None"
  by (simp_all add: example_seq_def add_def init_def infer_input_def call_layer_def
        make_node_def layer_tests example_defs Let_def)





section \<open>Properties of the Sequential container\<close>

subsection \<open>What a successful add leaves behind\<close>





lemma not_built_after_add: "add env s l = Inr s' \<Longrightarrow> \<not> built s'"
  by (auto simp: add_def Let_def
      split: if_splits sum.splits prod.splits pyarg.splits list.splits)

lemma not_built_after_pop: "pop env s = Inr s' \<Longrightarrow> \<not> built s'"
  by (auto simp: pop_def Let_def split: if_splits sum.splits list.splits)

lemma not_built_init: "\<not> built (init env nm)"
  by (simp add: init_def)

subsection \<open>Layers with several output tensors\<close>

lemma add_many_outputs:
  assumes "is_layer layer"
    and "outputs self = [] \<Longrightarrow> \<not> is_input_layer layer \<and> infer_input layer = Inr (bs, dt)"
    and "x = (if outputs self = []
              then fst (Input_placeholder env bs dt False (lname (attrs layer) @ ''_input''))
              else hd (outputs self))"
    and "call_value env layer (One x) [] = Many ts"
    and "1 < length ts"
  shows "add env self layer =
           Inl (Error (if outputs self = [] then ValueError else TypeError)
                  Msg_single_output_tensor)"
proof (cases "outputs self = []")
  case True
  with assms show ?thesis
    by (simp add: add_def call_layer_def make_node_def Let_def)
next
  case False
  with assms show ?thesis
    by (simp add: add_def call_layer_def make_node_def Let_def)
qed

text \<open>
  Claim C2. A layer whose call returns more than one output tensor is rejected by
  \<^verbatim>\<open>Sequential.add\<close> with the message "All layers in a Sequential model should have a
  single output tensor", which the specification calls ShapeKind, both when it is the
  first layer (then it is called on the input that \<^verbatim>\<open>add\<close> creates, and the error is a
  \<open>ValueError\<close>, line 503) and when it is a later layer (then it is called on the current
  output, and the error is a \<open>TypeError\<close>, line 523).
\<close>

theorem add_multi_output_rejected:
  assumes "is_layer layer"
    and "outputs self = [] \<Longrightarrow> \<not> is_input_layer layer \<and> infer_input layer = Inr (bs, dt)"
    and "x = (if outputs self = []
              then fst (Input_placeholder env bs dt False (lname (attrs layer) @ ''_input''))
              else hd (outputs self))"
    and "call_value env layer (One x) [] = Many ts"
    and "1 < length ts"
  shows "add env self layer =
           Inl (Error (if outputs self = [] then ValueError else TypeError)
                  Msg_single_output_tensor)
         \<and> error_kind (Error (if outputs self = [] then ValueError else TypeError)
                  Msg_single_output_tensor) = Some ShapeKind"
  using add_many_outputs [OF assms] by simp

text \<open>The theorem on the example layer \<open>split_3\<close>, as first layer and as second layer.\<close>

theorem add_multi_output_rejected_witness:
  "add example_env (init example_env None) split_3 =
      Inl (Error ValueError Msg_single_output_tensor)
   \<and> add example_env example_seq split_3 = Inl (Error TypeError Msg_single_output_tensor)"
proof -
  have a: "is_layer split_3"
    by (simp add: layer_tests example_defs)
  have b: "outputs (init example_env None) = [] \<Longrightarrow>
        \<not> is_input_layer split_3 \<and> infer_input split_3 = Inr ([None, Some 3], ''float32'')"
    by (simp add: infer_input_def layer_tests example_defs)
  have c: "500 = (if outputs (init example_env None) = []
              then fst (Input_placeholder example_env [None, Some 3] ''float32'' False
                     (lname (attrs split_3) @ ''_input''))
              else hd (outputs (init example_env None)))"
    by (simp add: init_def example_defs)
  have d: "call_value example_env split_3 (One n) [] = Many [1003, 2003]" for n
    by (simp add: example_defs)
  have e: "1 < length [1003, 2003 :: nat]"
    by simp
  have b': "outputs example_seq = [] \<Longrightarrow>
        \<not> is_input_layer split_3 \<and> infer_input split_3 = Inr ([None, Some 3], ''float32'')"
    by (simp add: example_seq_eq)
  have c': "1001 = (if outputs example_seq = []
              then fst (Input_placeholder example_env [None, Some 3] ''float32'' False
                     (lname (attrs split_3) @ ''_input''))
              else hd (outputs example_seq))"
    by (simp add: example_seq_eq)
  from add_multi_output_rejected [OF a b c d e] add_multi_output_rejected [OF a b' c' d e]
  show ?thesis
    by (simp add: init_def example_seq_eq)
qed

subsection \<open>Nested models as first layer\<close>

text \<open>
  The loop over nested first layers ends in a layer that is not a model, or fails with
  an \<open>IndexError\<close>; the message "Cannot add an empty model" is raised for the model that
  is added itself only.
\<close>

lemma first_layer_loop_error:
  "first_layer_loop l = Inl e \<Longrightarrow> e = Error IndexError Msg_index_out_of_range"
  by (induction l arbitrary: e rule: first_layer_loop.induct)
     (auto split: if_splits list.splits)

lemma first_layer_loop_result:
  "first_layer_loop l = Inr f \<Longrightarrow> \<not> is_model f"
  by (induction l arbitrary: f rule: first_layer_loop.induct)
     (auto simp: is_model_def split: if_splits list.splits)

lemma add_empty_model_rejected:
  assumes "outputs self = []" and "is_model layer" and "sublayers layer = []"
  shows "add env self layer = Inl (Error ValueError Msg_cannot_add_empty_model)"
  using assms by (auto simp: add_def infer_input_def layer_tests)

lemma add_nested_model_walks:
  "add example_env (init example_env None) nested_model =
     Inr ((init example_env None)
          \<lparr>outputs := [1022], inputs := [500],
           seq_inbound_nodes := [example_node [500] [1022]],
           layers := [snd (call_layer example_env nested_model 500)]\<rparr>)"
  by (simp add: add_def init_def infer_input_def call_layer_def make_node_def layer_tests
      example_defs Let_def)

text \<open>
  Claim C9. When the first layer added is a nested model, \<^verbatim>\<open>add\<close> walks down the first
  layers to infer the input shape (\<open>add_nested_model_walks\<close>), and an empty model that
  is added itself is rejected with the ConfigKind message (\<open>add_empty_model_rejected\<close>).
  An empty model met deeper in the nesting is not: \<^verbatim>\<open>first_layer.layers[0]\<close> in the loop
  of line 482 has no test, and \<^verbatim>\<open>add\<close> ends in Python's \<open>IndexError\<close>. The theorem
  evaluates \<^verbatim>\<open>add\<close> on a model whose inner model has no layers.
\<close>

theorem add_inner_empty_model_index_error:
  "add example_env (init example_env None) outer_model =
     Inl (Error IndexError Msg_index_out_of_range)
   \<and> error_kind (Error IndexError Msg_index_out_of_range) \<noteq> Some ConfigKind"
  by (simp add: add_def init_def infer_input_def layer_tests example_defs)

subsection \<open>add followed by pop\<close>

lemma clear_outbound_idem [simp]: "clear_outbound (clear_outbound l) = clear_outbound l"
  by (simp add: clear_outbound_def)

lemma lid_clear_outbound [simp]: "lid (attrs (clear_outbound l)) = lid (attrs l)"
  by (simp add: clear_outbound_def)

lemma consistent_init: "consistent env (init env nm)"
  by (simp add: consistent_def init_def)

lemma consistent_pop: "pop env s = Inr s' \<Longrightarrow> consistent env s'"
  by (auto simp: pop_def consistent_def Let_def split: if_splits sum.splits list.splits)

lemma consistent_add:
  assumes "add env s layer = Inr s'"
    and "layer_output env (clear_outbound (last (layers s'))) = Inr (hd (outputs s'))"
    and "outputs s = [] \<Longrightarrow> seq_inbound_nodes s = []"
  shows "consistent env s'"
proof (cases "outputs s = []")
  case True
  with assms(3) have n: "seq_inbound_nodes s = []" by simp
  from assms(1) True obtain l' t where
    "s' = s\<lparr>outputs := [t], inputs := get_source_inputs env t,
             seq_inbound_nodes :=
               seq_inbound_nodes s @ [make_node env (get_source_inputs env t) [t]],
             layers := layers s @ [l'], built := False\<rparr>"
    by (auto simp: add_def Let_def split: if_splits sum.splits)
  with assms(2) n show ?thesis
    by (simp add: consistent_def make_node_def)
next
  case False
  with assms(1) obtain t l' n0 ns where
    "s' = s\<lparr>outputs := [t],
             seq_inbound_nodes :=
               n0\<lparr>output_tensors := [t], output_shapes := [int_shape env t]\<rparr> # ns,
             layers := layers s @ [l'], built := False\<rparr>"
    by (auto simp: add_def Let_def split: if_splits prod.splits pyarg.splits list.splits)
  with assms(2) show ?thesis
    by (simp add: consistent_def)
qed

text \<open>
  What \<^verbatim>\<open>add\<close> followed by \<^verbatim>\<open>pop\<close> does not give back: \<^verbatim>\<open>built\<close> is false afterwards
  (\<open>not_built_after_pop\<close>), and a container that was empty keeps the input tensor that
  \<^verbatim>\<open>add\<close> created.
\<close>

lemma add_pop_keeps_inputs:
  "inputs (init example_env None) = []
   \<and> inputs (projr (pop example_env example_seq)) = [500]"
  by (simp add: pop_def init_def example_seq_eq call_layer_def)



subsection \<open>build\<close>


text \<open>\<^verbatim>\<open>compile\<close> calls \<^verbatim>\<open>build\<close> without the guard: it always installs a new model.\<close>

lemma compile_rebuilds:
  "compile tr fresh self a = Inr s' \<Longrightarrow> \<exists>m. model s' = Some m \<and> mid m = fresh"
  by (auto simp: compile_def build_def Let_def split: if_splits sum.splits option.splits)




subsection \<open>Training before compile\<close>


lemma legacy_support_unrecognized:
  "\<not> fst ` set (legacy_kwargs a) \<subseteq> legacy_keywords \<Longrightarrow>
     legacy_support a = Inl (Error ValueError Msg_unrecognized_keyword_arguments)"
  by (auto simp: legacy_support_def legacy_keywords_def Let_def filter_empty_conv)



text \<open>On a built container the four methods hand the call to the inner model.\<close>

lemma built_delegates:
  assumes "built self"
  shows "fit tr self a = delegate tr Fit self (Args a)"
    and "evaluate tr self a = delegate tr Evaluate self (Args a)"
    and "train_on_batch tr self a = delegate tr Train_on_batch self (Args a)"
    and "test_on_batch tr self a = delegate tr Test_on_batch self (Args a)"
  using assms by (simp_all add: fit_def evaluate_def train_on_batch_def test_on_batch_def)


subsection \<open>get_config and from_config\<close>






section \<open>Properties of the clone engine\<close>

subsection \<open>Cloning a Sequential model\<close>

text \<open>
  Claim C6. \<^verbatim>\<open>clone_model\<close> on a \<^verbatim>\<open>Sequential\<close> model fails with the CardinalityKind
  message when \<^verbatim>\<open>input_tensors\<close> is given and is not exactly one tensor, and with the
  UnsupportedKind message when the one tensor is a Keras tensor that comes from a layer
  other than an input layer.
\<close>

theorem clone_sequential_rejections:
  "(length (to_list its) \<noteq> 1 \<longrightarrow>
      clone_model env (Seq m) (Some its) = Inl (Error ValueError Msg_at_most_one_input_tensor))
   \<and> (to_list its = [x] \<and> is_keras_tensor env x \<and> keras_history env x = Some origin_layer
        \<and> \<not> is_input_layer origin_layer \<longrightarrow>
      clone_model env (Seq m) (Some its) = Inl (Error ValueError Msg_tensor_not_from_input_layer))
   \<and> error_kind (Error ValueError Msg_at_most_one_input_tensor) = Some CardinalityKind
   \<and> error_kind (Error ValueError Msg_tensor_not_from_input_layer) = Some UnsupportedKind"
  by (auto simp: clone_model_def clone_sequential_model_def Let_def split: list.splits)

text \<open>The theorem on \<open>example_seq\<close>: two tensors, and the output of \<open>dense_1\<close>.\<close>

theorem clone_sequential_rejections_witness:
  "clone_model example_env (Seq example_seq) (Some (Many [7, 7])) =
      Inl (Error ValueError Msg_at_most_one_input_tensor)
   \<and> clone_model example_env (Seq example_seq) (Some (One 1001)) =
      Inl (Error ValueError Msg_tensor_not_from_input_layer)"
proof -
  have a: "length (to_list (Many [7, 7 :: nat])) \<noteq> 1"
    by simp
  have b: "to_list (One 1001) = [1001 :: nat] \<and> is_keras_tensor example_env 1001
      \<and> keras_history example_env 1001 = Some dense_1 \<and> \<not> is_input_layer dense_1"
    by (simp add: layer_tests example_defs)
  from clone_sequential_rejections [of "Many [7, 7]" example_env example_seq]
    clone_sequential_rejections [of "One 1001" example_env example_seq 1001 dense_1] a b
  show ?thesis by blast
qed










subsection \<open>Cloning a functional model\<close>

subsection \<open>The tensor map only grows\<close>



lemma layer_map_call_node [simp]: "layer_map (call_node env n l st) = layer_map st"
  by (auto simp: call_node_def Let_def split: prod.splits)



subsection \<open>A call with all inputs resolved records the outputs\<close>




subsection \<open>One node, one depth, all depths\<close>









subsection \<open>The maps before the traversal, and the outputs after it\<close>








lemmas clone_defs =
  clone_functional_model_def seed_def traverse_def ordered_nodes_def depth_keys_def
  nodes_at_def process_node_def call_node_def update_tensor_map_def clone_def
  List.map_filter_simps Let_def





text \<open>
  In the second case every node does find its inputs; in the first none of the nodes
  below the input does.
\<close>

lemma split_model_all_resolved:
  "all_resolved example_env (ordered_nodes split_model)
     (snd (projr (seed example_env split_model None)))"
  by (simp add: clone_defs split_model_def example_defs layer_tests)

lemma empty_replacement_unresolved:
  "\<not> all_resolved example_env (ordered_nodes example_model)
       (snd (projr (seed example_env example_model (Some (Many [])))))"
  by (simp add: clone_defs example_model_def example_defs layer_tests)

section \<open>Properties of loading\<close>

text \<open>
  Claim C4. With \<^verbatim>\<open>h5py\<close> available, \<^verbatim>\<open>load_model\<close> on an archive without
  \<^verbatim>\<open>model_config\<close> fails with the ValidationKind message. On an archive that has a
  model configuration and weights that load, but no \<^verbatim>\<open>training_config\<close>, \<^verbatim>\<open>load_model\<close>
  with \<^verbatim>\<open>compile=True\<close> returns the reconstructed model with its weights, on which
  \<^verbatim>\<open>compile\<close> was not called, and one warning.
\<close>

theorem load_model_missing_records:
  "(h5py \<and> a_model_config f = None \<longrightarrow>
      load_model cd h5py f co do_compile = Inl (Error ValueError Msg_no_model_found))
   \<and> error_kind (Error ValueError Msg_no_model_found) = Some ValidationKind
   \<and> (h5py \<and> a_model_config f = Some conf \<and> model_from_config cd conf co = Inr loaded
        \<and> a_model_weights f = Some w \<and> load_weights_from_hdf5_group cd w loaded = Inr restored
        \<and> a_training_config f = None \<longrightarrow>
      load_model cd h5py f co True = Inr (restored, [Warn_no_training_configuration]))"
  by (simp add: load_model_def)

text \<open>The theorem on \<open>example_archive\<close>, with and without its model configuration.\<close>

theorem load_model_missing_records_witness:
  "load_model example_codec True (example_archive\<lparr>a_model_config := None\<rparr>) [] True =
      Inl (Error ValueError Msg_no_model_found)
   \<and> load_model example_codec True example_archive [] True =
      Inr (''Sequential+weights'', [Warn_no_training_configuration])"
proof -
  have a: "True \<and> a_model_config (example_archive\<lparr>a_model_config := None\<rparr>) = None"
    by simp
  have b: "True \<and> a_model_config example_archive = Some (Config_dict (''Sequential'', []))
      \<and> model_from_config example_codec (Config_dict (''Sequential'', [])) [] = Inr ''Sequential''
      \<and> a_model_weights example_archive = Some []
      \<and> load_weights_from_hdf5_group example_codec [] ''Sequential'' = Inr ''Sequential+weights''
      \<and> a_training_config example_archive = None"
    by (simp add: example_archive_def example_codec_def model_from_config_def)
  from load_model_missing_records [where h5py = True and cd = example_codec
      and f = "example_archive\<lparr>a_model_config := None\<rparr>" and co = "[]" and do_compile = True] a
    load_model_missing_records [where h5py = True and cd = example_codec
      and f = example_archive and co = "[]" and conf = "Config_dict (''Sequential'', [])"
      and loaded = "''Sequential''" and w = "[]" and restored = "''Sequential+weights''"] b
  show ?thesis by blast
qed

end
